theory Spec2Isabelle
  imports Complex_Main "HOL-Library.AList"
begin

section \<open>Settings objects and the persisted blob\<close>

text \<open>
  The settings object and the blob behind \<^verbatim>\<open>loadData\<close>/\<^verbatim>\<open>saveData\<close> are plain
  JavaScript objects: maps from property names to JSON values. The interface
  \<^verbatim>\<open>ContentViewSettings\<close> declares one property, \<^verbatim>\<open>contentVisible\<close>; at run time an
  object may carry any further property.
\<close>

datatype jsval =
    JNull
  | JBool bool
  | JNum real
  | JStr string
  | JArr "jsval list"
  | JObj "(string \<times> jsval) list"

type_synonym jsobject = "string \<rightharpoonup> jsval"

text \<open>A property read used as a condition; a missing property reads as \<^verbatim>\<open>undefined\<close>.\<close>

fun truthy :: "jsval option \<Rightarrow> bool" where
  "truthy None = False"
| "truthy (Some JNull) = False"
| "truthy (Some (JBool b)) = b"
| "truthy (Some (JNum r)) = (r \<noteq> 0)"
| "truthy (Some (JStr s)) = (s \<noteq> [])"
| "truthy (Some (JArr xs)) = True"
| "truthy (Some (JObj kvs)) = True"

definition DEFAULT_SETTINGS :: jsobject where
  "DEFAULT_SETTINGS = [''contentVisible'' \<mapsto> JBool True]"

text \<open>
  \<^verbatim>\<open>Object.assign(target, ...sources)\<close>: every own property of each source is assigned
  to the target, later sources winning; a \<^verbatim>\<open>null\<close> source is skipped. The assignment
  of a key \<^verbatim>\<open>__proto__\<close> runs the setter that a plain object inherits: it changes the
  prototype of the target, or nothing, and creates no property. Every other key
  becomes an own property. The maps hold the own properties; the prototype is left
  out, since \<^verbatim>\<open>contentVisible\<close> is an own property of the settings object after every
  \<^verbatim>\<open>loadSettings\<close> and \<^verbatim>\<open>saveData\<close> serialises own properties only.
\<close>

definition assigned :: "jsobject \<Rightarrow> jsobject" where
  "assigned ob = (\<lambda>k. if k = ''__proto__'' then None else ob k)"

definition Object_assign :: "jsobject \<Rightarrow> jsobject option list \<Rightarrow> jsobject" where
  "Object_assign target sources =
     foldl (\<lambda>t src. case src of None \<Rightarrow> t | Some ob \<Rightarrow> t ++ assigned ob) target sources"

section \<open>The rendering tree\<close>

text \<open>
  An element has its class list, its attributes, its event listeners, the markup last
  assigned through \<^verbatim>\<open>innerHTML\<close> and its child elements. The only markup the plugin
  assigns is one of the two icon literals, which hold no \<^verbatim>\<open>class\<close> attribute, so the
  nodes parsed from it match none of the class selectors and are kept as the markup.
\<close>

datatype listener = ClickToggle

datatype element =
  Element (classes: "string list") (attrs: "(string \<times> string) list")
    (listeners: "(string \<times> listener) list") (innerHTML: string) (kids: "element list")

fun set_kids :: "element \<Rightarrow> element list \<Rightarrow> element" where
  "set_kids (Element cs as ls h ks) ks' = Element cs as ls h ks'"

text \<open>\<^verbatim>\<open>el.empty()\<close> removes every child node of the element.\<close>

fun empty_el :: "element \<Rightarrow> element" where
  "empty_el (Element cs as ls h ks) = Element cs as ls [] []"

fun set_innerHTML :: "string \<Rightarrow> element \<Rightarrow> element" where
  "set_innerHTML s (Element cs as ls h ks) = Element cs as ls s []"

fun setAttribute :: "string \<Rightarrow> string \<Rightarrow> element \<Rightarrow> element" where
  "setAttribute k v (Element cs as ls h ks) = Element cs (AList.update k v as) ls h ks"

definition getAttribute :: "string \<Rightarrow> element \<Rightarrow> string option" where
  "getAttribute k e = map_of (attrs e) k"

fun addEventListener :: "string \<Rightarrow> listener \<Rightarrow> element \<Rightarrow> element" where
  "addEventListener ev f (Element cs as ls h ks) = Element cs as (ls @ [(ev, f)]) h ks"

text \<open>
  \<^verbatim>\<open>parent.querySelector('.c')\<close>: the first element with class \<open>c\<close> among the
  descendants of the parent, in document order (an element before its own children,
  these before its later siblings). The argument is the parent's list of children.
\<close>

fun querySelector :: "string \<Rightarrow> element list \<Rightarrow> element option" where
  "querySelector c [] = None"
| "querySelector c (Element cs as ls h ks # es) =
     (if c \<in> set cs then Some (Element cs as ls h ks)
      else case querySelector c ks of
             Some d \<Rightarrow> Some d
           | None \<Rightarrow> querySelector c es)"

text \<open>
  The same search, returning where the match is: the child indices leading to it from
  the parent. A path of length one is a child of the parent itself.
\<close>

fun shift_path :: "nat list \<Rightarrow> nat list" where
  "shift_path [] = []"
| "shift_path (i # p) = Suc i # p"

fun querySelector_path :: "string \<Rightarrow> element list \<Rightarrow> nat list option" where
  "querySelector_path c [] = None"
| "querySelector_path c (Element cs as ls h ks # es) =
     (if c \<in> set cs then Some [0]
      else case querySelector_path c ks of
             Some p \<Rightarrow> Some (0 # p)
           | None \<Rightarrow> map_option shift_path (querySelector_path c es))"

text \<open>
  Writing through a reference obtained from \<^verbatim>\<open>querySelector\<close>: the first match in
  document order is replaced by its image under \<open>f\<close>; nothing changes without a match.
\<close>

fun modify_first :: "string \<Rightarrow> (element \<Rightarrow> element) \<Rightarrow> element list \<Rightarrow> element list" where
  "modify_first c f [] = []"
| "modify_first c f (Element cs as ls h ks # es) =
     (if c \<in> set cs then f (Element cs as ls h ks) # es
      else case querySelector c ks of
             Some d \<Rightarrow> Element cs as ls h (modify_first c f ks) # es
           | None \<Rightarrow> Element cs as ls h ks # modify_first c f es)"

text \<open>
  \<^verbatim>\<open>querySelectorAll('.c').forEach(el => el.remove())\<close> over a list of sibling trees:
  every element with class \<open>c\<close> leaves its parent, together with its subtree.
\<close>

fun remove_all :: "string \<Rightarrow> element list \<Rightarrow> element list" where
  "remove_all c [] = []"
| "remove_all c (Element cs as ls h ks # es) =
     (if c \<in> set cs then remove_all c es
      else Element cs as ls h (remove_all c ks) # remove_all c es)"

text \<open>
  \<^verbatim>\<open>querySelectorAll('.c')\<close> over a list of sibling trees: every element with class
  \<open>c\<close>, in document order.
\<close>

fun querySelectorAll :: "string \<Rightarrow> element list \<Rightarrow> element list" where
  "querySelectorAll c [] = []"
| "querySelectorAll c (Element cs as ls h ks # es) =
     (if c \<in> set cs then [Element cs as ls h ks] else [])
       @ querySelectorAll c ks @ querySelectorAll c es"

datatype dom_error = NotFoundError

text \<open>
  \<^verbatim>\<open>parent.insertBefore(node, ref)\<close> for a node that is already the child at index \<open>j\<close>
  of the parent, the reference given by its path from the parent. A reference that is
  not a child of the parent raises \<^verbatim>\<open>NotFoundError\<close> and nothing moves; a reference
  that is the node itself leaves the node where it is; otherwise the node is taken
  out and put back right before the reference.
\<close>

definition move_before :: "nat \<Rightarrow> nat \<Rightarrow> 'a list \<Rightarrow> 'a list" where
  "move_before j i ks =
     (if i = j then ks
      else let rest = take j ks @ drop (Suc j) ks;
               i' = (if j < i then i - 1 else i)
           in take i' rest @ [ks ! j] @ drop i' rest)"

fun insertBefore :: "element list \<Rightarrow> nat \<Rightarrow> nat list \<Rightarrow> dom_error option \<times> element list" where
  "insertBefore ks j [i] = (None, move_before j i ks)"
| "insertBefore ks j p = (Some NotFoundError, ks)"

text \<open>\<^verbatim>\<open>parent.appendChild(node)\<close> for the child at index \<open>j\<close>: it moves to the end.\<close>

definition appendChild :: "'a list \<Rightarrow> nat \<Rightarrow> 'a list" where
  "appendChild ks j = take j ks @ drop (Suc j) ks @ [ks ! j]"

section \<open>Panes and the plugin's state\<close>

text \<open>
  A leaf holds a view and, optionally, a container. \<^verbatim>\<open>getLeavesOfType\<close> goes by the
  view's type string, \<^verbatim>\<open>instanceof MarkdownView\<close> by its class: a view of another
  class may still report the type \<^verbatim>\<open>markdown\<close>. The container element itself belongs
  to the host; the field holds its children, which is all the selectors search.

  The workspace spans every window of the application, and each window has a document
  of its own. \<^verbatim>\<open>getLeavesOfType\<close> returns the leaves of all windows, while the global
  \<^verbatim>\<open>document\<close> of the plugin is the document of the main window: \<open>inDocument\<close> tells
  whether the container of the leaf is part of it. A pane moved to a window of its own
  is a leaf of the workspace outside that document.
\<close>

datatype view = MarkdownView | OtherView string

fun getViewType :: "view \<Rightarrow> string" where
  "getViewType MarkdownView = ''markdown''"
| "getViewType (OtherView t) = t"

record leaf =
  view :: view
  containerEl :: "element list option"
  inDocument :: bool

text \<open>
  The global document is the body with its class list, the containers of the panes of
  the main window, and whatever else the body holds. No two panes share an element, as
  the host lays the workspace out; the body element and the container elements
  themselves are the host's and never carry the class of the button.
\<close>

text \<open>
  The state the plugin reads and writes: its settings object, the persisted blob
  (\<open>None\<close> while nothing was saved), the text of its status bar item, the class list
  of the body of the global document, that document outside the panes, and the open
  panes of all windows.
\<close>

record state =
  settings :: jsobject
  data :: "jsobject option"
  statusBarItem :: string
  body_classes :: "string list"
  body_kids :: "element list"
  leaves :: "leaf list"

definition contentVisible :: "state \<Rightarrow> bool" where
  "contentVisible st = truthy (settings st ''contentVisible'')"

definition toggle_button_class :: string where
  "toggle_button_class = ''content-visible-toggle-button''"

definition hidden_class :: string where
  "hidden_class = ''content-visible-hidden''"

definition addClass :: "string \<Rightarrow> string list \<Rightarrow> string list" where
  "addClass c cs = (if c \<in> set cs then cs else cs @ [c])"

definition removeClass :: "string \<Rightarrow> string list \<Rightarrow> string list" where
  "removeClass c cs = filter (\<lambda>x. x \<noteq> c) cs"

section \<open>The plugin\<close>

definition getIconSvg :: "string \<Rightarrow> string" where
  \<open>getIconSvg iconName =
     (if iconName = ''eye'' then
        ''<svg xmlns="http://www.w3.org/2000/svg" width="16" height="16" viewBox="0 0 24 24" fill="none" stroke="currentColor" stroke-width="2" stroke-linecap="round" stroke-linejoin="round"><path d="M1 12s4-8 11-8 11 8 11 8-4 8-11 8-11-8-11-8z"></path><circle cx="12" cy="12" r="3"></circle></svg>''
      else
        ''<svg xmlns="http://www.w3.org/2000/svg" width="16" height="16" viewBox="0 0 24 24" fill="none" stroke="currentColor" stroke-width="2" stroke-linecap="round" stroke-linejoin="round"><path d="M17.94 17.94A10.07 10.07 0 0 1 12 20c-7 0-11-8-11-8a18.45 18.45 0 0 1 5.06-5.94M9.9 4.24A9.12 9.12 0 0 1 12 4c7 0 11 8 11 8a18.5 18.5 0 0 1-2.16 3.19m-6.72-1.07a3 3 0 1 1-4.24-4.24"></path><line x1="1" y1="1" x2="23" y2="23"></line></svg>'')\<close>

definition aria_label :: "state \<Rightarrow> string" where
  "aria_label st = (if contentVisible st then ''Hide content'' else ''Show content'')"

definition updateButtonIcon :: "state \<Rightarrow> element \<Rightarrow> element" where
  "updateButtonIcon st button =
     (let iconName = (if contentVisible st then ''eye'' else ''eye-off'')
      in set_innerHTML (getIconSvg iconName) (empty_el button))"

text \<open>
  \<^verbatim>\<open>parent.createDiv\<close> builds a \<^verbatim>\<open>div\<close> with the given classes and attributes and
  appends it to the parent; the element is built here, and \<open>place_button\<close> puts it
  behind the parent's children.
\<close>

definition createDiv :: "string list \<Rightarrow> (string \<times> string) list \<Rightarrow> element" where
  "createDiv cls attr = Element cls attr [] [] []"

text \<open>
  Lines 75 to 97 of \<^verbatim>\<open>addButtonToLeaf\<close>, on the children of the actions container:
  the button is created as the last child, gets its icon and its click handler, and is
  then inserted before the first element with class \<^verbatim>\<open>view-action\<close> that
  \<^verbatim>\<open>querySelector\<close> finds (the button carries that class too).
\<close>

definition place_button :: "state \<Rightarrow> element list \<Rightarrow> dom_error option \<times> element list" where
  "place_button st ks =
     (let button = createDiv [''clickable-icon'', ''view-action'', toggle_button_class]
                     [(''aria-label'', aria_label st)];
          j = length ks;
          ks1 = ks @ [button];
          ks2 = ks1[j := addEventListener ''click'' ClickToggle (updateButtonIcon st (ks1 ! j))]
      in case querySelector_path ''view-action'' ks2 of
           Some firstAction \<Rightarrow> insertBefore ks2 j firstAction
         | None \<Rightarrow> (None, appendChild ks2 j))"

text \<open>Lines 66 and 67: the optional chain down to the actions container.\<close>

definition viewActions_of :: "leaf \<Rightarrow> element option" where
  "viewActions_of l =
     (case containerEl l of
        None \<Rightarrow> None
      | Some cs \<Rightarrow>
          (case querySelector ''view-header'' cs of
             None \<Rightarrow> None
           | Some viewHeader \<Rightarrow> querySelector ''view-actions'' (kids viewHeader)))"

definition set_viewActions_kids :: "element list \<Rightarrow> leaf \<Rightarrow> leaf" where
  "set_viewActions_kids ks l =
     l\<lparr>containerEl :=
         map_option
           (modify_first ''view-header''
              (\<lambda>viewHeader. set_kids viewHeader
                 (modify_first ''view-actions'' (\<lambda>viewActions. set_kids viewActions ks)
                    (kids viewHeader))))
           (containerEl l)\<rparr>"

definition addButtonToLeaf :: "state \<Rightarrow> leaf \<Rightarrow> dom_error option \<times> leaf" where
  "addButtonToLeaf st l =
     (if view l \<noteq> MarkdownView then (None, l)
      else case viewActions_of l of
             None \<Rightarrow> (None, l)
           | Some viewActions \<Rightarrow>
               if querySelector toggle_button_class (kids viewActions) \<noteq> None then (None, l)
               else case place_button st (kids viewActions) of
                      (err, ks) \<Rightarrow> (err, set_viewActions_kids ks l))"

text \<open>
  Lines 45 and 52: \<^verbatim>\<open>document.querySelectorAll(...).forEach(el => el.remove())\<close>. The
  search covers the global document: its body and the panes that are part of it.
\<close>

definition remove_buttons :: "state \<Rightarrow> state" where
  "remove_buttons st =
     st\<lparr>body_kids := remove_all toggle_button_class (body_kids st),
        leaves := map (\<lambda>l. if inDocument l
                             then l\<lparr>containerEl :=
                                     map_option (remove_all toggle_button_class) (containerEl l)\<rparr>
                             else l)
                    (leaves st)\<rparr>"

definition getLeavesOfType :: "string \<Rightarrow> leaf list \<Rightarrow> nat list" where
  "getLeavesOfType t ls = filter (\<lambda>i. getViewType (view (ls ! i)) = t) [0..<length ls]"

text \<open>
  \<^verbatim>\<open>leaves.forEach\<close>: the leaves are visited in order; an exception ends the loop, the
  changes made so far staying in place.
\<close>

fun forEach_leaf :: "state \<Rightarrow> nat list \<Rightarrow> leaf list \<Rightarrow> dom_error option \<times> leaf list" where
  "forEach_leaf st [] ls = (None, ls)"
| "forEach_leaf st (i # is) ls =
     (case addButtonToLeaf st (ls ! i) of
        (Some err, l') \<Rightarrow> (Some err, ls[i := l'])
      | (None, l') \<Rightarrow> forEach_leaf st is (ls[i := l']))"

definition addViewActionButtons :: "state \<Rightarrow> dom_error option \<times> state" where
  "addViewActionButtons st =
     (let st1 = remove_buttons st
      in case forEach_leaf st1 (getLeavesOfType ''markdown'' (leaves st1)) (leaves st1) of
           (err, ls) \<Rightarrow> (err, st1\<lparr>leaves := ls\<rparr>))"

definition onunload :: "state \<Rightarrow> state" where
  "onunload st =
     (let st1 = remove_buttons st
      in st1\<lparr>body_classes := removeClass hidden_class (body_classes st1)\<rparr>)"

definition applyContentVisibility :: "state \<Rightarrow> state" where
  "applyContentVisibility st =
     (if contentVisible st
      then st\<lparr>body_classes := removeClass hidden_class (body_classes st)\<rparr>
      else st\<lparr>body_classes := addClass hidden_class (body_classes st)\<rparr>)"

text \<open>
  \<^verbatim>\<open>updateAllButtons\<close> over a list of sibling trees: an element with the button class
  gets the icon (which empties it) and the label; the search goes on below the others.
\<close>

fun update_buttons :: "state \<Rightarrow> element list \<Rightarrow> element list" where
  "update_buttons st [] = []"
| "update_buttons st (Element cs as ls h ks # es) =
     (if toggle_button_class \<in> set cs
      then setAttribute ''aria-label'' (aria_label st)
             (updateButtonIcon st (Element cs as ls h ks))
      else Element cs as ls h (update_buttons st ks)) # update_buttons st es"

text \<open>Line 131 searches the global document, as the removal does.\<close>

definition updateAllButtons :: "state \<Rightarrow> state" where
  "updateAllButtons st =
     st\<lparr>body_kids := update_buttons st (body_kids st),
        leaves := map (\<lambda>l. if inDocument l
                             then l\<lparr>containerEl := map_option (update_buttons st) (containerEl l)\<rparr>
                             else l)
                    (leaves st)\<rparr>"

definition visible_text :: string where
  "visible_text = [CHR 0xF0, CHR 0x9F, CHR 0x91, CHR 0x81, CHR 0xEF, CHR 0xB8, CHR 0x8F] @ '' Visible''"

definition hidden_text :: string where
  "hidden_text = [CHR 0xF0, CHR 0x9F, CHR 0x9A, CHR 0xAB] @ '' Hidden''"

definition updateStatusBar :: "state \<Rightarrow> state" where
  "updateStatusBar st =
     st\<lparr>statusBarItem := (if contentVisible st then visible_text else hidden_text)\<rparr>"

definition loadSettings :: "state \<Rightarrow> state" where
  "loadSettings st = st\<lparr>settings := Object_assign Map.empty [Some DEFAULT_SETTINGS, data st]\<rparr>"

definition saveSettings :: "state \<Rightarrow> state" where
  "saveSettings st = st\<lparr>data := Some (settings st)\<rparr>"

definition toggleContentVisibility :: "state \<Rightarrow> state" where
  "toggleContentVisibility st =
     (let st1 = st\<lparr>settings := (settings st)(''contentVisible'' \<mapsto> JBool (\<not> contentVisible st))\<rparr>;
          st2 = saveSettings st1;
          st3 = applyContentVisibility st2;
          st4 = updateAllButtons st3
      in updateStatusBar st4)"

text \<open>
  \<^verbatim>\<open>onload\<close>: the settings are loaded, the status bar item is created (empty) and
  filled, the handler of \<^verbatim>\<open>active-leaf-change\<close> and the command are registered
  (each runs \<open>addViewActionButtons\<close> or \<open>toggleContentVisibility\<close> later, as an event of
  its own), then the first rescan and the presentation class. An exception of the
  rescan leaves \<^verbatim>\<open>onload\<close> before the class is applied.
\<close>

definition onload :: "state \<Rightarrow> dom_error option \<times> state" where
  "onload st =
     (let st1 = loadSettings st;
          st2 = updateStatusBar (st1\<lparr>statusBarItem := []\<rparr>)
      in case addViewActionButtons st2 of
           (Some err, st3) \<Rightarrow> (Some err, st3)
         | (None, st3) \<Rightarrow> (None, applyContentVisibility st3))"

section \<open>What the properties observe\<close>

text \<open>The button as \<^verbatim>\<open>addButtonToLeaf\<close> leaves it: created, with its icon and its handler.\<close>

definition new_button :: "state \<Rightarrow> element" where
  "new_button st =
     addEventListener ''click'' ClickToggle
       (updateButtonIcon st
          (createDiv [''clickable-icon'', ''view-action'', toggle_button_class]
             [(''aria-label'', aria_label st)]))"

text \<open>
  The elements with the button class inside one pane, in the global document, and in
  the whole rendering tree, the panes of the other windows included.
\<close>

definition leaf_buttons :: "leaf \<Rightarrow> element list" where
  "leaf_buttons l =
     (case containerEl l of None \<Rightarrow> [] | Some cs \<Rightarrow> querySelectorAll toggle_button_class cs)"

definition doc_buttons :: "state \<Rightarrow> element list" where
  "doc_buttons st =
     querySelectorAll toggle_button_class (body_kids st)
       @ concat (map leaf_buttons (filter inDocument (leaves st)))"

definition all_buttons :: "state \<Rightarrow> element list" where
  "all_buttons st =
     querySelectorAll toggle_button_class (body_kids st) @ concat (map leaf_buttons (leaves st))"


text \<open>An element shows the state when its icon and its label are those of \<open>contentVisible\<close>.\<close>

definition in_sync :: "state \<Rightarrow> element \<Rightarrow> bool" where
  "in_sync st b =
     (innerHTML b = getIconSvg (if contentVisible st then ''eye'' else ''eye-off'')
      \<and> getAttribute ''aria-label'' b
          = Some (if contentVisible st then ''Hide content'' else ''Show content''))"


section \<open>Example states\<close>

definition blank :: state where
  "blank = \<lparr>settings = DEFAULT_SETTINGS, data = None, statusBarItem = [], body_classes = [],
     body_kids = [], leaves = []\<rparr>"

definition el :: "string list \<Rightarrow> element list \<Rightarrow> element" where
  "el cs ks = Element cs [] [] [] ks"

text \<open>A markdown pane as the host builds it, with the given action row.\<close>

definition markdown_pane :: "element list \<Rightarrow> leaf" where
  "markdown_pane row =
     \<lparr>view = MarkdownView,
      containerEl = Some [el [''view-header''] [el [''view-title''] [], el [''view-actions''] row],
                          el [''view-content''] []],
      inDocument = True\<rparr>"

text \<open>A markdown pane whose header has no actions container, and a pane of another view.\<close>

definition bare_pane :: leaf where
  "bare_pane = \<lparr>view = MarkdownView,
                 containerEl = Some [el [''view-header''] [], el [''view-content''] []],
                 inDocument = True\<rparr>"

definition graph_pane :: leaf where
  "graph_pane = \<lparr>view = OtherView ''graph'',
                  containerEl = Some [el [''view-header''] [el [''view-actions''] []]],
                  inDocument = True\<rparr>"

text \<open>A persisted blob with a property the plugin does not know.\<close>

definition themed :: state where
  "themed = blank\<lparr>settings := Map.empty,
      data := Some [''contentVisible'' \<mapsto> JBool False, ''theme'' \<mapsto> JStr ''dark'']\<rparr>"


text \<open>
  An action row in which a control sits inside a group element, followed by a control
  that is a child of the row.
\<close>

definition nested_row :: "element list" where
  "nested_row = [el [''button-group''] [el [''clickable-icon'', ''view-action''] []],
                 el [''clickable-icon'', ''view-action''] []]"

text \<open>A markdown pane in a window of its own, and a workspace with that pane only.\<close>

definition popout_pane :: "element list \<Rightarrow> leaf" where
  "popout_pane row = (markdown_pane row)\<lparr>inDocument := False\<rparr>"

definition popout :: state where
  "popout = blank\<lparr>leaves := [popout_pane []]\<rparr>"


text \<open>That workspace after a rescan: the pane has got its button.\<close>

definition popout_scanned :: state where
  "popout_scanned = snd (addViewActionButtons popout)"

text \<open>A persisted blob with a property named \<^verbatim>\<open>__proto__\<close>.\<close>

definition proto_blob :: jsobject where
  "proto_blob = [''contentVisible'' \<mapsto> JBool False, ''theme'' \<mapsto> JStr ''dark'',
                 ''__proto__'' \<mapsto> JObj [(''theme'', JStr ''light'')]]"


section \<open>Selectors, removal and refresh\<close>

lemma qsa_remove_all: "querySelectorAll c (remove_all c es) = []"
  by (induction c es rule: remove_all.induct) auto

lemma qsa_Cons: "querySelectorAll c (e # es) = querySelectorAll c [e] @ querySelectorAll c es"
  by (cases e) simp


lemma leaf_buttons_removed:
  "leaf_buttons (l\<lparr>containerEl := map_option (remove_all toggle_button_class) (containerEl l)\<rparr>) = []"
  by (cases "containerEl l") (simp_all add: leaf_buttons_def qsa_remove_all)

lemma doc_leaves_removed:
  "concat (map leaf_buttons (filter inDocument
     (map (\<lambda>l. if inDocument l
                then l\<lparr>containerEl := map_option (remove_all toggle_button_class) (containerEl l)\<rparr>
                else l) ls))) = []"
  by (induction ls) (simp_all add: leaf_buttons_removed)

lemma doc_buttons_remove_buttons: "doc_buttons (remove_buttons st) = []"
  by (simp add: doc_buttons_def remove_buttons_def qsa_remove_all doc_leaves_removed)

lemma contentVisible_cong:
  "settings st = settings st' \<Longrightarrow> contentVisible st = contentVisible st'"
  by (simp add: contentVisible_def)

lemma update_buttons_cong:
  "contentVisible st = contentVisible st' \<Longrightarrow> update_buttons st es = update_buttons st' es"
  by (induction st es rule: update_buttons.induct)
     (simp_all add: aria_label_def updateButtonIcon_def)

lemma in_sync_updated:
  "toggle_button_class \<in> set cs \<Longrightarrow>
   in_sync st (setAttribute ''aria-label'' (aria_label st) (updateButtonIcon st (Element cs as ls h ks)))"
  by (simp add: in_sync_def updateButtonIcon_def getAttribute_def aria_label_def update_conv')

lemma qsa_updated:
  "toggle_button_class \<in> set cs \<Longrightarrow>
   querySelectorAll toggle_button_class
     [setAttribute ''aria-label'' (aria_label st) (updateButtonIcon st (Element cs as ls h ks))]
   = [setAttribute ''aria-label'' (aria_label st) (updateButtonIcon st (Element cs as ls h ks))]"
  by (simp add: updateButtonIcon_def)

lemma update_buttons_in_sync:
  "b \<in> set (querySelectorAll toggle_button_class (update_buttons st es)) \<Longrightarrow> in_sync st b"
proof (induction st es rule: update_buttons.induct)
  case (1 st)
  then show ?case by simp
next
  case (2 st cs as ls h ks es)
  show ?case
  proof (cases "toggle_button_class \<in> set cs")
    case True
    let ?u = "setAttribute ''aria-label'' (aria_label st) (updateButtonIcon st (Element cs as ls h ks))"
    from "2.prems" True have "b \<in> set (querySelectorAll toggle_button_class (?u # update_buttons st es))"
      by simp
    then have "b = ?u \<or> b \<in> set (querySelectorAll toggle_button_class (update_buttons st es))"
      using qsa_Cons [of toggle_button_class ?u "update_buttons st es"] qsa_updated [OF True, of st as ls h ks]
      by auto
    then show ?thesis
      using in_sync_updated [OF True] "2.IH"(2) by auto
  next
    case False
    with "2.prems" have "b \<in> set (querySelectorAll toggle_button_class (update_buttons st ks))
        \<or> b \<in> set (querySelectorAll toggle_button_class (update_buttons st es))"
      by auto
    then show ?thesis
      using "2.IH"(1) [OF False] "2.IH"(2) by auto
  qed
qed


section \<open>What a toggle changes\<close>

lemma settings_toggle:
  "settings (toggleContentVisibility st)
   = (settings st)(''contentVisible'' \<mapsto> JBool (\<not> contentVisible st))"
  by (simp add: toggleContentVisibility_def Let_def updateStatusBar_def updateAllButtons_def
      applyContentVisibility_def saveSettings_def)

lemma contentVisible_toggle:
  "contentVisible (toggleContentVisibility st) = (\<not> contentVisible st)"
  by (simp add: contentVisible_def settings_toggle)

lemma body_classes_toggle:
  "body_classes (toggleContentVisibility st)
   = (if contentVisible st then addClass hidden_class (body_classes st)
      else removeClass hidden_class (body_classes st))"
  by (simp add: toggleContentVisibility_def Let_def updateStatusBar_def updateAllButtons_def
      applyContentVisibility_def saveSettings_def contentVisible_def)

lemma data_toggle:
  "data (toggleContentVisibility st) = Some (settings (toggleContentVisibility st))"
  by (simp add: toggleContentVisibility_def Let_def updateStatusBar_def updateAllButtons_def
      applyContentVisibility_def saveSettings_def)

lemma statusBarItem_toggle:
  "statusBarItem (toggleContentVisibility st)
   = (if contentVisible st then hidden_text else visible_text)"
  by (simp add: toggleContentVisibility_def Let_def updateStatusBar_def updateAllButtons_def
      applyContentVisibility_def saveSettings_def contentVisible_def)

lemma hidden_class_toggle:
  "(hidden_class \<in> set (body_classes (toggleContentVisibility st))) = contentVisible st"
  by (simp add: body_classes_toggle addClass_def removeClass_def)

lemma body_kids_toggle:
  "body_kids (toggleContentVisibility st) = update_buttons (toggleContentVisibility st) (body_kids st)"
proof -
  let ?st3 = "applyContentVisibility (saveSettings
      (st\<lparr>settings := (settings st)(''contentVisible'' \<mapsto> JBool (\<not> contentVisible st))\<rparr>))"
  have cv: "contentVisible ?st3 = contentVisible (toggleContentVisibility st)"
    by (simp add: contentVisible_toggle)
       (simp add: contentVisible_def applyContentVisibility_def saveSettings_def)
  have "body_kids (toggleContentVisibility st) = update_buttons ?st3 (body_kids st)"
    by (simp add: toggleContentVisibility_def Let_def updateStatusBar_def updateAllButtons_def)
       (simp add: applyContentVisibility_def saveSettings_def)
  moreover have "update_buttons ?st3 = update_buttons (toggleContentVisibility st)"
    by (rule ext) (rule update_buttons_cong [OF cv])
  ultimately show ?thesis
    by (simp only:)
qed

lemma leaves_toggle:
  "leaves (toggleContentVisibility st)
   = map (\<lambda>l. if inDocument l
               then l\<lparr>containerEl :=
                       map_option (update_buttons (toggleContentVisibility st)) (containerEl l)\<rparr>
               else l)
       (leaves st)"
proof -
  let ?st3 = "applyContentVisibility (saveSettings
      (st\<lparr>settings := (settings st)(''contentVisible'' \<mapsto> JBool (\<not> contentVisible st))\<rparr>))"
  have cv: "contentVisible ?st3 = contentVisible (toggleContentVisibility st)"
    by (simp add: contentVisible_toggle)
       (simp add: contentVisible_def applyContentVisibility_def saveSettings_def)
  have "leaves (toggleContentVisibility st)
      = map (\<lambda>l. if inDocument l
                  then l\<lparr>containerEl := map_option (update_buttons ?st3) (containerEl l)\<rparr>
                  else l) (leaves st)"
    by (simp add: toggleContentVisibility_def Let_def updateStatusBar_def updateAllButtons_def)
       (simp add: applyContentVisibility_def saveSettings_def)
  moreover have "update_buttons ?st3 = update_buttons (toggleContentVisibility st)"
    by (rule ext) (rule update_buttons_cong [OF cv])
  ultimately show ?thesis
    by (simp only:)
qed

lemma leaf_buttons_updated:
  "b \<in> set (leaf_buttons (l\<lparr>containerEl := map_option (update_buttons st) (containerEl l)\<rparr>))
   \<Longrightarrow> in_sync st b"
  by (cases "containerEl l") (auto simp: leaf_buttons_def dest: update_buttons_in_sync)

lemma assigned_DEFAULT_SETTINGS: "assigned DEFAULT_SETTINGS = DEFAULT_SETTINGS"
  by (rule ext) (simp add: assigned_def DEFAULT_SETTINGS_def)

lemma settings_loadSettings:
  "settings (loadSettings st) =
     (case data st of None \<Rightarrow> DEFAULT_SETTINGS | Some blob \<Rightarrow> DEFAULT_SETTINGS ++ assigned blob)"
  by (simp add: loadSettings_def Object_assign_def assigned_DEFAULT_SETTINGS split: option.splits)

text \<open>
  The scenario of the specification: nothing persisted, \<open>onload\<close>, then one toggle.
\<close>

lemma scenario:
  "fst (onload (blank\<lparr>settings := Map.empty\<rparr>)) = None
   \<and> contentVisible (snd (onload (blank\<lparr>settings := Map.empty\<rparr>)))
   \<and> statusBarItem (snd (onload (blank\<lparr>settings := Map.empty\<rparr>))) = visible_text
   \<and> \<not> contentVisible (toggleContentVisibility (snd (onload (blank\<lparr>settings := Map.empty\<rparr>))))
   \<and> hidden_class \<in> set (body_classes
         (toggleContentVisibility (snd (onload (blank\<lparr>settings := Map.empty\<rparr>)))))
   \<and> statusBarItem (toggleContentVisibility (snd (onload (blank\<lparr>settings := Map.empty\<rparr>))))
       = hidden_text
   \<and> map_option (\<lambda>blob. blob ''contentVisible'')
         (data (toggleContentVisibility (snd (onload (blank\<lparr>settings := Map.empty\<rparr>)))))
       = Some (Some (JBool False))"
  by code_simp

section \<open>Toggling twice\<close>

text \<open>
  C2, as the code has it: two toggles in a row bring \<open>contentVisible\<close> back to what it
  was (the stored property itself when it held a boolean), and leave the presentation
  class on the body present exactly when \<open>contentVisible\<close> is false. The class is
  derived from \<open>contentVisible\<close>, whatever was on the body before: it comes back to
  its original presence when that presence agreed with \<open>contentVisible\<close>.
\<close>

theorem toggle_twice:
  "contentVisible (toggleContentVisibility (toggleContentVisibility st)) = contentVisible st
   \<and> (hidden_class \<in> set (body_classes (toggleContentVisibility (toggleContentVisibility st))))
       = (\<not> contentVisible st)
   \<and> (\<forall>b. settings st ''contentVisible'' = Some (JBool b) \<longrightarrow>
          settings (toggleContentVisibility (toggleContentVisibility st)) ''contentVisible''
          = Some (JBool b))"
proof -
  have "\<And>b. settings st ''contentVisible'' = Some (JBool b) \<Longrightarrow> contentVisible st = b"
    by (simp add: contentVisible_def)
  then show ?thesis
    by (auto simp: contentVisible_toggle hidden_class_toggle settings_toggle)
qed

text \<open>On the default settings with a body without the class, both come back.\<close>

theorem toggle_twice_witness:
  "settings (toggleContentVisibility (toggleContentVisibility blank)) ''contentVisible''
   = Some (JBool True)
   \<and> hidden_class \<notin> set (body_classes (toggleContentVisibility (toggleContentVisibility blank)))"
  using toggle_twice [of blank]
  by (auto simp: blank_def DEFAULT_SETTINGS_def contentVisible_def)

text \<open>
  C2 as stated, for every starting state, fails where the class was on the body while
  \<open>contentVisible\<close> was true: after two toggles \<open>contentVisible\<close> is true again and the
  class is gone.
\<close>

theorem toggle_twice_class_counterexample:
  "contentVisible (blank\<lparr>body_classes := [hidden_class]\<rparr>)
   \<and> hidden_class \<in> set (body_classes (blank\<lparr>body_classes := [hidden_class]\<rparr>))
   \<and> hidden_class \<notin> set (body_classes
         (toggleContentVisibility (toggleContentVisibility (blank\<lparr>body_classes := [hidden_class]\<rparr>))))"
  by (simp add: hidden_class_toggle contentVisible_toggle)
     (simp add: blank_def contentVisible_def DEFAULT_SETTINGS_def)


section \<open>Loading the settings\<close>

text \<open>
  C5: when nothing was persisted, or the persisted blob has no \<open>contentVisible\<close>
  property (the empty blob among them), \<open>loadSettings\<close> sets \<open>contentVisible\<close> to true.
\<close>

theorem loadSettings_default:
  "data st = None \<or> (\<exists>blob. data st = Some blob \<and> blob ''contentVisible'' = None) \<Longrightarrow>
   settings (loadSettings st) ''contentVisible'' = Some (JBool True)
   \<and> contentVisible (loadSettings st)"
  by (auto simp: settings_loadSettings contentVisible_def DEFAULT_SETTINGS_def map_add_def
      assigned_def)

text \<open>The empty blob, a blob with another property only, and no blob at all.\<close>

theorem loadSettings_default_witness:
  "settings (loadSettings (blank\<lparr>settings := Map.empty, data := Some Map.empty\<rparr>)) ''contentVisible''
     = Some (JBool True)
   \<and> settings (loadSettings (blank\<lparr>settings := Map.empty, data := Some [''theme'' \<mapsto> JStr ''dark'']\<rparr>))
       ''contentVisible'' = Some (JBool True)
   \<and> settings (loadSettings (blank\<lparr>settings := Map.empty\<rparr>)) ''contentVisible'' = Some (JBool True)"
  using loadSettings_default [of "blank\<lparr>settings := Map.empty, data := Some Map.empty\<rparr>"]
    loadSettings_default [of "blank\<lparr>settings := Map.empty, data := Some [''theme'' \<mapsto> JStr ''dark'']\<rparr>"]
    loadSettings_default [of "blank\<lparr>settings := Map.empty\<rparr>"]
  by (simp add: blank_def)

section \<open>Teardown\<close>

text \<open>
  After \<open>onunload\<close> no element with the button class is left in the global document,
  the presentation class is off its body, and the persisted blob is the one from
  before.
\<close>

lemma onunload_document:
  "doc_buttons (onunload st) = []
   \<and> hidden_class \<notin> set (body_classes (onunload st))
   \<and> data (onunload st) = data st"
proof -
  have "doc_buttons (onunload st) = doc_buttons (remove_buttons st)"
    by (simp add: onunload_def doc_buttons_def Let_def)
  moreover have "hidden_class \<notin> set (body_classes (onunload st))"
    by (simp add: onunload_def Let_def removeClass_def)
  moreover have "data (onunload st) = data st"
    by (simp add: onunload_def Let_def remove_buttons_def)
  ultimately show ?thesis
    by (simp add: doc_buttons_remove_buttons)
qed

text \<open>
  C6 at a workspace whose markdown pane lives in a window of its own: the rescan gave
  the pane its button, through the leaf, and \<open>onunload\<close> searches the global document
  only. The button is still in the rendering tree after the teardown.
\<close>

theorem onunload_leaves_popout_button:
  "map classes (all_buttons popout_scanned)
     = [[''clickable-icon'', ''view-action'', ''content-visible-toggle-button'']]
   \<and> map classes (all_buttons (onunload popout_scanned))
     = [[''clickable-icon'', ''view-action'', ''content-visible-toggle-button'']]
   \<and> doc_buttons (onunload popout_scanned) = []"
  by code_simp

section \<open>The status bar and the presentation class\<close>

text \<open>
  C9: \<open>updateStatusBar\<close> writes one of two literals: the eye (U+1F441, U+FE0F, in the
  bytes of the source file) followed by \<open>Visible\<close> when \<open>contentVisible\<close> is true, the
  no-entry sign (U+1F6AB) followed by \<open>Hidden\<close> when it is false. So does a toggle, for
  the flipped value, and no other operation of the plugin changes the text.
\<close>

theorem updateStatusBar_text:
  "statusBarItem (updateStatusBar st)
     = (if contentVisible st
        then [CHR 0xF0, CHR 0x9F, CHR 0x91, CHR 0x81, CHR 0xEF, CHR 0xB8, CHR 0x8F] @ '' Visible''
        else [CHR 0xF0, CHR 0x9F, CHR 0x9A, CHR 0xAB] @ '' Hidden'')
   \<and> statusBarItem (toggleContentVisibility st)
     = (if contentVisible st
        then [CHR 0xF0, CHR 0x9F, CHR 0x9A, CHR 0xAB] @ '' Hidden''
        else [CHR 0xF0, CHR 0x9F, CHR 0x91, CHR 0x81, CHR 0xEF, CHR 0xB8, CHR 0x8F] @ '' Visible'')
   \<and> statusBarItem (snd (addViewActionButtons st)) = statusBarItem st
   \<and> statusBarItem (applyContentVisibility st) = statusBarItem st
   \<and> statusBarItem (updateAllButtons st) = statusBarItem st
   \<and> statusBarItem (saveSettings st) = statusBarItem st
   \<and> statusBarItem (loadSettings st) = statusBarItem st
   \<and> statusBarItem (onunload st) = statusBarItem st"
proof -
  have "statusBarItem (snd (addViewActionButtons st)) = statusBarItem st"
    by (simp add: addViewActionButtons_def Let_def remove_buttons_def split: prod.splits)
  moreover have "statusBarItem (onunload st) = statusBarItem st"
    by (simp add: onunload_def Let_def remove_buttons_def)
  ultimately show ?thesis
    by (simp add: statusBarItem_toggle updateStatusBar_def visible_text_def hidden_text_def
        applyContentVisibility_def updateAllButtons_def saveSettings_def loadSettings_def)
qed

text \<open>
  C10: whatever classes the body had, after \<open>applyContentVisibility\<close> the presentation
  class is present exactly when \<open>contentVisible\<close> is false (it is removed when
  \<open>contentVisible\<close> is true), and applying again changes nothing.
\<close>

theorem applyContentVisibility_class:
  "(hidden_class \<in> set (body_classes (applyContentVisibility st))) = (\<not> contentVisible st)
   \<and> applyContentVisibility (applyContentVisibility st) = applyContentVisibility st"
  by (simp add: applyContentVisibility_def contentVisible_def addClass_def removeClass_def)

section \<open>Unknown properties of the blob\<close>

text \<open>
  C4, as the code has it: \<open>contentVisible\<close> is read from the blob (true when the blob has
  none), whatever else the blob holds. Every other property of the blob, one named
  \<^verbatim>\<open>__proto__\<close> apart, is copied into the settings object as it is, \<open>Object.assign\<close>
  assigning all of them, and \<open>saveSettings\<close> writes the whole settings object: these
  properties go back into the blob unchanged, also after a toggle. A property named
  \<^verbatim>\<open>__proto__\<close> becomes no property of the settings object and is not written back.
\<close>

theorem loadSettings_merge:
  "data st = Some blob \<Longrightarrow>
   settings (loadSettings st) ''contentVisible''
     = (case blob ''contentVisible'' of None \<Rightarrow> Some (JBool True) | Some v \<Rightarrow> Some v)
   \<and> (\<forall>k. k \<noteq> ''contentVisible'' \<and> k \<noteq> ''__proto__'' \<longrightarrow> settings (loadSettings st) k = blob k)
   \<and> settings (loadSettings st) ''__proto__'' = None
   \<and> data (saveSettings (loadSettings st)) = Some (settings (loadSettings st))
   \<and> data (toggleContentVisibility (loadSettings st))
       = Some (settings (toggleContentVisibility (loadSettings st)))
   \<and> (\<forall>k. k \<noteq> ''contentVisible'' \<and> k \<noteq> ''__proto__'' \<longrightarrow>
          settings (toggleContentVisibility (loadSettings st)) k = blob k)
   \<and> settings (toggleContentVisibility (loadSettings st)) ''__proto__'' = None"
  by (auto simp: settings_loadSettings settings_toggle data_toggle saveSettings_def
      DEFAULT_SETTINGS_def map_add_def assigned_def split: option.splits)

text \<open>
  A blob with \<open>contentVisible\<close> false, a \<open>theme\<close> and a \<^verbatim>\<open>__proto__\<close>: the first two are
  there after loading and after a toggle, the third is not.
\<close>

theorem loadSettings_merge_witness:
  "settings (loadSettings (blank\<lparr>data := Some proto_blob\<rparr>)) ''contentVisible'' = Some (JBool False)
   \<and> settings (toggleContentVisibility (loadSettings (blank\<lparr>data := Some proto_blob\<rparr>))) ''theme''
       = Some (JStr ''dark'')
   \<and> settings (toggleContentVisibility (loadSettings (blank\<lparr>data := Some proto_blob\<rparr>))) ''__proto__''
       = None"
  using loadSettings_merge [of "blank\<lparr>data := Some proto_blob\<rparr>" proto_blob]
  by (simp add: proto_blob_def)

text \<open>
  C4 as stated, with the unknown properties left out of the state that is written
  back, fails on a blob with \<open>contentVisible\<close> false and a \<open>theme\<close>: \<open>theme\<close> is in the
  settings object after loading, and \<open>saveSettings\<close> writes that object.
\<close>

theorem loadSettings_unknown_counterexample:
  "settings (loadSettings themed) ''theme'' = Some (JStr ''dark'')
   \<and> data (saveSettings (loadSettings themed)) = Some (settings (loadSettings themed))"
  by (simp add: settings_loadSettings saveSettings_def themed_def blank_def DEFAULT_SETTINGS_def
      assigned_def)

section \<open>Panes without a place for the button\<close>

text \<open>
  C7: for a pane whose view is not a \<open>MarkdownView\<close>, and for a markdown pane without a
  container, without a header in it or without an actions container in that header,
  \<open>addButtonToLeaf\<close> returns without an exception and leaves the pane as it was.
\<close>

theorem addButtonToLeaf_skips:
  "view l \<noteq> MarkdownView
   \<or> containerEl l = None
   \<or> (\<exists>cs. containerEl l = Some cs \<and> querySelector ''view-header'' cs = None)
   \<or> (\<exists>cs viewHeader. containerEl l = Some cs
         \<and> querySelector ''view-header'' cs = Some viewHeader
         \<and> querySelector ''view-actions'' (kids viewHeader) = None)
   \<Longrightarrow> addButtonToLeaf st l = (None, l)"
  by (auto simp: addButtonToLeaf_def viewActions_of_def)

text \<open>A graph pane, a markdown pane with an empty header, one without a container, one without a header.\<close>

theorem addButtonToLeaf_skips_witness:
  "addButtonToLeaf blank graph_pane = (None, graph_pane)
   \<and> addButtonToLeaf blank bare_pane = (None, bare_pane)
   \<and> addButtonToLeaf blank \<lparr>view = MarkdownView, containerEl = None, inDocument = True\<rparr>
       = (None, \<lparr>view = MarkdownView, containerEl = None, inDocument = True\<rparr>)
   \<and> addButtonToLeaf blank \<lparr>view = MarkdownView, containerEl = Some [el [''view-content''] []], inDocument = True\<rparr>
       = (None, \<lparr>view = MarkdownView, containerEl = Some [el [''view-content''] []], inDocument = True\<rparr>)"
  using addButtonToLeaf_skips [of graph_pane blank] addButtonToLeaf_skips [of bare_pane blank]
    addButtonToLeaf_skips [of "\<lparr>view = MarkdownView, containerEl = None, inDocument = True\<rparr>" blank]
    addButtonToLeaf_skips [of "\<lparr>view = MarkdownView, containerEl = Some [el [''view-content''] []], inDocument = True\<rparr>" blank]
  by (simp add: graph_pane_def bare_pane_def el_def)

section \<open>What a toggle refreshes\<close>

text \<open>
  At the end of \<open>toggleContentVisibility\<close>, every element of the global document with
  the button class has the icon and the label of the new \<open>contentVisible\<close>, which is the
  negation of the old one, and the status bar shows the text for it.
\<close>

lemma toggle_refreshes_document:
  "(\<forall>b \<in> set (doc_buttons (toggleContentVisibility st)). in_sync (toggleContentVisibility st) b)
   \<and> statusBarItem (toggleContentVisibility st)
       = (if contentVisible (toggleContentVisibility st) then visible_text else hidden_text)
   \<and> contentVisible (toggleContentVisibility st) = (\<not> contentVisible st)
   \<and> getIconSvg ''eye'' \<noteq> getIconSvg ''eye-off''"
proof -
  have "in_sync (toggleContentVisibility st) b"
    if "b \<in> set (doc_buttons (toggleContentVisibility st))" for b
    using that
    by (auto simp: doc_buttons_def body_kids_toggle leaves_toggle
        dest: update_buttons_in_sync leaf_buttons_updated split: if_splits)
  moreover have "getIconSvg ''eye'' \<noteq> getIconSvg ''eye-off''"
    by (simp add: getIconSvg_def)
  ultimately show ?thesis
    by (simp add: statusBarItem_toggle contentVisible_toggle)
qed

text \<open>
  C3 at the workspace whose markdown pane lives in a window of its own, after the
  rescan that gave the pane its button: \<open>contentVisible\<close> is true and the button shows
  the eye and \<open>Hide content\<close>. The toggle makes \<open>contentVisible\<close> false, and
  \<open>updateAllButtons\<close> searches the global document only: the button of the pane keeps
  the eye and \<open>Hide content\<close>.
\<close>

theorem toggle_leaves_popout_button_stale:
  "contentVisible popout_scanned
   \<and> map (in_sync popout_scanned) (all_buttons popout_scanned) = [True]
   \<and> \<not> contentVisible (toggleContentVisibility popout_scanned)
   \<and> map innerHTML (all_buttons (toggleContentVisibility popout_scanned)) = [getIconSvg ''eye'']
   \<and> map (getAttribute ''aria-label'') (all_buttons (toggleContentVisibility popout_scanned))
       = [Some ''Hide content'']
   \<and> map (in_sync (toggleContentVisibility popout_scanned))
         (all_buttons (toggleContentVisibility popout_scanned)) = [False]"
  by code_simp

section \<open>Placing the button in the action row\<close>

lemma qsp_append_match:
  "c \<in> set (classes b) \<Longrightarrow>
   querySelector_path c (ks @ [b])
   = (case querySelector_path c ks of Some p \<Rightarrow> Some p | None \<Rightarrow> Some [length ks])"
proof (induction c ks rule: querySelector_path.induct)
  case (1 c)
  then show ?case by (cases b) simp
next
  case (2 c cs as ls h ks es)
  then show ?case by (simp split: option.splits)
qed

lemma qsp_child_bound: "querySelector_path c ks = Some [i] \<Longrightarrow> i < length ks"
proof (induction c ks arbitrary: i rule: querySelector_path.induct)
  case (1 c)
  then show ?case by simp
next
  case (2 c cs as ls h ks es)
  show ?case
  proof (cases "c \<in> set cs")
    case True
    with "2.prems" show ?thesis by simp
  next
    case False
    show ?thesis
    proof (cases "querySelector_path c ks")
      case None
      with False "2.prems" obtain p where p: "querySelector_path c es = Some p" "shift_path p = [i]"
        by auto
      then obtain i' where "p = [i']" "i = Suc i'"
        by (cases p) auto
      with p "2.IH"(2) [OF False None] show ?thesis by simp
    next
      case (Some p)
      with False "2.prems" show ?thesis by simp
    qed
  qed
qed

lemma new_button_classes: "classes (new_button st) = [''clickable-icon'', ''view-action'', toggle_button_class]"
  by (simp add: new_button_def createDiv_def updateButtonIcon_def)

lemma new_button_kids: "kids (new_button st) = []"
  by (simp add: new_button_def createDiv_def updateButtonIcon_def)

lemma place_button_start:
  "place_button st ks =
     (case querySelector_path ''view-action'' (ks @ [new_button st]) of
        Some firstAction \<Rightarrow> insertBefore (ks @ [new_button st]) (length ks) firstAction
      | None \<Rightarrow> (None, appendChild (ks @ [new_button st]) (length ks)))"
  by (simp add: place_button_def Let_def new_button_def split: option.splits)

lemma place_button_alone:
  "querySelector_path ''view-action'' ks = None \<Longrightarrow>
   place_button st ks = (None, ks @ [new_button st])"
  by (simp add: place_button_start qsp_append_match new_button_classes move_before_def)

lemma place_button_child:
  assumes "querySelector_path ''view-action'' ks = Some [i]"
  shows "place_button st ks = (None, take i ks @ [new_button st] @ drop i ks)"
proof -
  have "i < length ks"
    using assms by (rule qsp_child_bound)
  then show ?thesis
    using assms
    by (simp add: place_button_start qsp_append_match new_button_classes move_before_def Let_def)
qed




text \<open>
  Where no child of the row holds a \<open>view-action\<close> element below it, the button lands
  right before the first child with that class, and at the end when there is none.
\<close>

lemma qsp_none_iff: "querySelector_path c es = None \<longleftrightarrow> querySelector c es = None"
  by (induction c es rule: querySelector.induct) (auto split: option.splits)

lemma qsp_flat:
  "\<forall>k\<in>set ks. querySelector c (kids k) = None \<Longrightarrow>
   querySelector_path c ks
   = (if \<exists>k\<in>set ks. c \<in> set (classes k)
      then Some [length (takeWhile (\<lambda>k. c \<notin> set (classes k)) ks)] else None)"
proof (induction c ks rule: querySelector_path.induct)
  case (1 c)
  then show ?case by simp
next
  case (2 c cs as ls h ks es)
  then have "querySelector_path c ks = None"
    by (simp add: qsp_none_iff)
  with 2 show ?case by auto
qed

lemma place_button_flat:
  assumes "\<forall>k\<in>set ks. querySelector ''view-action'' (kids k) = None"
  shows "place_button st ks
    = (None, takeWhile (\<lambda>k. ''view-action'' \<notin> set (classes k)) ks @ [new_button st]
               @ dropWhile (\<lambda>k. ''view-action'' \<notin> set (classes k)) ks)"
proof (cases "\<exists>k\<in>set ks. ''view-action'' \<in> set (classes k)")
  case True
  define n where "n = length (takeWhile (\<lambda>k. ''view-action'' \<notin> set (classes k)) ks)"
  from True have "querySelector_path ''view-action'' ks = Some [n]"
    using qsp_flat [OF assms] by (simp add: n_def)
  then have "place_button st ks = (None, take n ks @ [new_button st] @ drop n ks)"
    by (rule place_button_child)
  moreover have "take n ks = takeWhile (\<lambda>k. ''view-action'' \<notin> set (classes k)) ks"
    unfolding n_def by (rule takeWhile_eq_take [symmetric])
  moreover have "drop n ks = dropWhile (\<lambda>k. ''view-action'' \<notin> set (classes k)) ks"
    unfolding n_def by (rule dropWhile_eq_drop [symmetric])
  ultimately show ?thesis
    by (simp only:)
next
  case False
  then have "querySelector_path ''view-action'' ks = None"
    using qsp_flat [OF assms] by simp
  moreover from False have "takeWhile (\<lambda>k. ''view-action'' \<notin> set (classes k)) ks = ks"
    by (intro takeWhile_eq_all_conv [THEN iffD2]) simp
  moreover from False have "dropWhile (\<lambda>k. ''view-action'' \<notin> set (classes k)) ks = []"
    by (intro dropWhile_eq_Nil_conv [THEN iffD2]) simp
  ultimately show ?thesis
    by (simp only: place_button_alone append_Nil2)
qed


section \<open>Rescanning the panes\<close>






lemma modify_first_none: "querySelector c es = None \<Longrightarrow> modify_first c f es = es"
  by (induction c es rule: querySelector.induct) (auto split: if_splits option.splits)

















lemma inDocument_addButtonToLeaf: "inDocument (snd (addButtonToLeaf st l)) = inDocument l"
  by (simp add: addButtonToLeaf_def set_viewActions_kids_def split: option.splits prod.splits)









section \<open>A control below a child of the action row\<close>

text \<open>
  C8 at a row whose first \<open>view-action\<close> element sits inside a group: \<open>querySelector\<close>
  returns that element, which is no child of the row, so \<open>insertBefore\<close> raises
  \<open>NotFoundError\<close> and the button stays where \<open>createDiv\<close> put it, behind the control
  that is a child of the row.
\<close>

theorem nested_control_raises:
  "addButtonToLeaf blank (markdown_pane nested_row)
   = (Some NotFoundError, markdown_pane (nested_row @ [new_button blank]))"
  by (simp add: addButtonToLeaf_def viewActions_of_def markdown_pane_def nested_row_def el_def
      set_viewActions_kids_def place_button_start new_button_classes toggle_button_class_def)

end
